theory Spec2Isabelle
  imports Complex_Main
begin

section \<open>JavaScript values used by the tile source\<close>

text \<open>
  A JavaScript number is modelled as an exact rational, one of the two infinities, or NaN.
  Finite arithmetic is exact: the rounding error of IEEE doubles, overflow to infinity and
  the sign of zero are not modelled.
\<close>

datatype jsnum = Fin rat | PosInf | NegInf | NaN

text \<open>The values a field or an option of the tile source can hold.\<close>

datatype js_value = Undefined | Null | Bool bool | Num jsnum

fun truthy :: "js_value \<Rightarrow> bool" where
  "truthy Undefined = False"
| "truthy Null = False"
| "truthy (Bool b) = b"
| "truthy (Num (Fin r)) = (r \<noteq> 0)"
| "truthy (Num NaN) = False"
| "truthy (Num PosInf) = True"
| "truthy (Num NegInf) = True"

text \<open>\<open>a || b\<close>: the left operand when it is truthy, the right one otherwise.\<close>

definition js_or :: "js_value \<Rightarrow> js_value \<Rightarrow> js_value" where
  "js_or a b = (if truthy a then a else b)"

text \<open>ToNumber, applied by the arithmetic and relational operators.\<close>

fun to_number :: "js_value \<Rightarrow> jsnum" where
  "to_number Undefined = NaN"
| "to_number Null = Fin 0"
| "to_number (Bool b) = Fin (if b then 1 else 0)"
| "to_number (Num n) = n"

text \<open>\<open>a < b\<close> on numbers: false as soon as one side is NaN.\<close>

fun js_lt :: "jsnum \<Rightarrow> jsnum \<Rightarrow> bool" where
  "js_lt NaN _ = False"
| "js_lt _ NaN = False"
| "js_lt (Fin a) (Fin b) = (a < b)"
| "js_lt (Fin a) PosInf = True"
| "js_lt (Fin a) NegInf = False"
| "js_lt PosInf _ = False"
| "js_lt NegInf NegInf = False"
| "js_lt NegInf _ = True"

definition js_gt :: "jsnum \<Rightarrow> jsnum \<Rightarrow> bool" where
  "js_gt a b = js_lt b a"

text \<open>\<open>a >= b\<close>: not the negation of \<open><\<close>, since NaN compares false both ways.\<close>

fun js_ge :: "jsnum \<Rightarrow> jsnum \<Rightarrow> bool" where
  "js_ge NaN _ = False"
| "js_ge _ NaN = False"
| "js_ge a b = (\<not> js_lt a b)"

fun js_sub :: "jsnum \<Rightarrow> jsnum \<Rightarrow> jsnum" where
  "js_sub NaN _ = NaN"
| "js_sub _ NaN = NaN"
| "js_sub (Fin a) (Fin b) = Fin (a - b)"
| "js_sub (Fin a) PosInf = NegInf"
| "js_sub (Fin a) NegInf = PosInf"
| "js_sub PosInf PosInf = NaN"
| "js_sub PosInf _ = PosInf"
| "js_sub NegInf NegInf = NaN"
| "js_sub NegInf _ = NegInf"

text \<open>The sign of an infinite product or quotient.\<close>

definition signed_inf :: "bool \<Rightarrow> jsnum" where
  "signed_inf positive = (if positive then PosInf else NegInf)"

fun js_mul :: "jsnum \<Rightarrow> jsnum \<Rightarrow> jsnum" where
  "js_mul NaN _ = NaN"
| "js_mul _ NaN = NaN"
| "js_mul (Fin a) (Fin b) = Fin (a * b)"
| "js_mul (Fin a) PosInf = (if a = 0 then NaN else signed_inf (0 < a))"
| "js_mul (Fin a) NegInf = (if a = 0 then NaN else signed_inf (a < 0))"
| "js_mul PosInf (Fin b) = (if b = 0 then NaN else signed_inf (0 < b))"
| "js_mul NegInf (Fin b) = (if b = 0 then NaN else signed_inf (b < 0))"
| "js_mul PosInf PosInf = PosInf"
| "js_mul PosInf NegInf = NegInf"
| "js_mul NegInf PosInf = NegInf"
| "js_mul NegInf NegInf = PosInf"

text \<open>
  Division. A zero divisor is taken as positive zero; the normalizer never divides by zero,
  its divisor being replaced by 1 when falsy.
\<close>

fun js_div :: "jsnum \<Rightarrow> jsnum \<Rightarrow> jsnum" where
  "js_div NaN _ = NaN"
| "js_div _ NaN = NaN"
| "js_div (Fin a) (Fin b) =
     (if b = 0 then (if a = 0 then NaN else signed_inf (0 < a)) else Fin (a / b))"
| "js_div (Fin a) PosInf = Fin 0"
| "js_div (Fin a) NegInf = Fin 0"
| "js_div PosInf (Fin b) = signed_inf (0 \<le> b)"
| "js_div NegInf (Fin b) = signed_inf (b < 0)"
| "js_div PosInf _ = NaN"
| "js_div NegInf _ = NaN"

text \<open>\<open>Math.min\<close> and \<open>Math.max\<close> of two numbers: NaN when either is NaN.\<close>

fun math_min :: "jsnum \<Rightarrow> jsnum \<Rightarrow> jsnum" where
  "math_min NaN _ = NaN"
| "math_min _ NaN = NaN"
| "math_min a b = (if js_lt b a then b else a)"

fun math_max :: "jsnum \<Rightarrow> jsnum \<Rightarrow> jsnum" where
  "math_max NaN _ = NaN"
| "math_max _ NaN = NaN"
| "math_max a b = (if js_lt a b then b else a)"

text \<open>\<open>Math.round\<close>: the nearest integer, ties towards positive infinity.\<close>

fun math_round :: "jsnum \<Rightarrow> jsnum" where
  "math_round (Fin a) = Fin (of_int \<lfloor>a + 1 / 2\<rfloor>)"
| "math_round n = n"

text \<open>
  Storing a number into a \<open>Uint8ClampedArray\<close> (the pixel array of an image data object):
  NaN becomes 0, the value is clamped to 0..255 and rounded, ties to even.
\<close>

definition round_half_even :: "rat \<Rightarrow> int" where
  "round_half_even r =
     (let f = \<lfloor>r\<rfloor>; d = r - of_int f
      in if d < 1 / 2 then f else if 1 / 2 < d then f + 1
         else if even f then f else f + 1)"

fun to_uint8_clamped :: "jsnum \<Rightarrow> nat" where
  "to_uint8_clamped NaN = 0"
| "to_uint8_clamped PosInf = 255"
| "to_uint8_clamped NegInf = 0"
| "to_uint8_clamped (Fin r) =
     (if r \<le> 0 then 0 else if 255 \<le> r then 255 else nat (round_half_even r))"


section \<open>Data model\<close>

text \<open>
  A raster tile: the canvas created by \<open>dataToCanvas\<close>, with its RGBA bytes in row-major
  order, four per pixel.
\<close>

record canvas =
  canvas_width :: nat
  canvas_height :: nat
  pixels :: "nat list"

text \<open>
  The nested array returned by one region read: \<open>data.shape[0]\<close>, \<open>data.shape[1]\<close> and
  the accessor \<open>data.get(y, x)\<close>.
\<close>

record sample_buffer =
  buf_height :: nat
  buf_width :: nat
  buf_get :: "nat \<Rightarrow> nat \<Rightarrow> jsnum"

text \<open>
  The selection passed to \<open>array.get\<close>: a channel index and two ranges when the array has a
  channel axis, two ranges otherwise. A bound is \<open>None\<close> when the arithmetic that produced it
  met \<open>undefined\<close> (NaN).
\<close>

type_synonym range = "int option \<times> int option"

datatype selection = Sel3 int range range | Sel2 range range

text \<open>
  The outcome of an awaited operation: the promise resolves, rejects with an error carrying
  a message, or never settles.
\<close>

datatype 'a settle = Resolved 'a | Rejected string | Pending

text \<open>
  An opened zarr array. The store is remote: \<open>array_get\<close> gives, for each selection, the
  outcome of the read.
\<close>

record zarr_array =
  shape :: "nat list"
  chunks :: "nat list"
  array_get :: "selection \<Rightarrow> sample_buffer settle"

record zarr_level =
  path :: string
  array :: zarr_array

text \<open>The fields of an \<open>OmeZarrTileSource\<close>; the tile cache is a \<open>Map\<close>, kept in insertion order.\<close>

record tile_source =
  zarrUrl :: string
  zarrArrays :: "zarr_level list"
  tileCache :: "(string \<times> canvas) list"
  maxCacheSize :: js_value
  minValue :: js_value
  maxValue :: js_value
  autoNormalize :: bool

text \<open>
  The options object given to the constructor; an absent property is \<open>Undefined\<close>. The
  properties \<open>fixedMin\<close> and \<open>fixedMax\<close> are those named by the configuration interface.
\<close>

record options =
  opt_maxCacheSize :: js_value
  opt_autoNormalize :: js_value
  opt_fixedMin :: js_value
  opt_fixedMax :: js_value

text \<open>The tile of a request context: \<open>context.tile\<close>, undefined when \<open>None\<close>.\<close>

record tile =
  tile_level :: int
  tile_x :: int
  tile_y :: int

record request_context =
  ctx_tile :: "tile option"

text \<open>
  What a tile request does that the outside can see: a region read issued on the array of a
  storage level, a call of \<open>dataToCanvas\<close> on a buffer of a given actual height and width, and
  the two ways of calling \<open>context.finish\<close>.
\<close>

datatype event =
    Fetch nat selection
  | Normalize nat nat
  | Finish_ok canvas
  | Finish_err string

section \<open>The constructor\<close>

definition constructor :: "string \<Rightarrow> options \<Rightarrow> tile_source" where
  "constructor url opts =
     \<lparr> zarrUrl = url,
       zarrArrays = [],
       tileCache = [],
       maxCacheSize = js_or (opt_maxCacheSize opts) (Num (Fin 100)),
       minValue = Null,
       maxValue = Null,
       autoNormalize = (opt_autoNormalize opts \<noteq> Bool False) \<rparr>"

section \<open>The tile cache\<close>

text \<open>The operations of a JavaScript \<open>Map\<close> on the insertion-ordered entry list.\<close>

definition map_has :: "(string \<times> 'v) list \<Rightarrow> string \<Rightarrow> bool" where
  "map_has m k = (k \<in> fst ` set m)"

definition map_get :: "(string \<times> 'v) list \<Rightarrow> string \<Rightarrow> 'v option" where
  "map_get m k = map_of m k"

text \<open>\<open>set\<close> keeps the position of a key already present, and appends a new key.\<close>

fun map_set :: "(string \<times> 'v) list \<Rightarrow> string \<Rightarrow> 'v \<Rightarrow> (string \<times> 'v) list" where
  "map_set [] k v = [(k, v)]"
| "map_set ((k', v') # m) k v = (if k' = k then (k, v) # m else (k', v') # map_set m k v)"

fun map_delete :: "(string \<times> 'v) list \<Rightarrow> string \<Rightarrow> (string \<times> 'v) list" where
  "map_delete [] k = []"
| "map_delete ((k', v') # m) k = (if k' = k then m else (k', v') # map_delete m k)"

text \<open>\<open>keys().next().value\<close>: the oldest key, undefined on an empty map.\<close>

fun first_key :: "(string \<times> 'v) list \<Rightarrow> string option" where
  "first_key [] = None"
| "first_key ((k, v) # m) = Some k"

definition addToCache :: "tile_source \<Rightarrow> string \<Rightarrow> canvas \<Rightarrow> tile_source" where
  "addToCache s key cv =
     (let cache = tileCache s;
          cache' =
            (if js_ge (Fin (of_nat (length cache))) (to_number (maxCacheSize s))
             then (case first_key cache of
                     None \<Rightarrow> cache
                   | Some firstKey \<Rightarrow> map_delete cache firstKey)
             else cache)
      in s\<lparr>tileCache := map_set cache' key cv\<rparr>)"

text \<open>
  A sequence of cache operations: \<open>Put\<close> is \<open>addToCache\<close>, \<open>Get\<close> is the lookup
  (\<open>has\<close> followed by \<open>get\<close>) that a tile request makes, which changes nothing.
\<close>

datatype cache_op = Put string canvas | Get string

fun cache_step :: "tile_source \<Rightarrow> cache_op \<Rightarrow> tile_source" where
  "cache_step s (Put k cv) = addToCache s k cv"
| "cache_step s (Get k) = (case map_get (tileCache s) k of None \<Rightarrow> s | Some cv \<Rightarrow> s)"

definition run_cache :: "tile_source \<Rightarrow> cache_op list \<Rightarrow> tile_source" where
  "run_cache s ops = foldl cache_step s ops"

fun is_put :: "cache_op \<Rightarrow> bool" where
  "is_put (Put k cv) = True"
| "is_put (Get k) = False"


section \<open>The normalizer: \<open>dataToCanvas\<close>\<close>

text \<open>The scan of the first buffer, from \<open>(Infinity, -Infinity)\<close>, row by row.\<close>

definition scan_step :: "jsnum \<times> jsnum \<Rightarrow> jsnum \<Rightarrow> jsnum \<times> jsnum" where
  "scan_step acc v =
     (let mn = (if js_lt v (fst acc) then v else fst acc);
          mx = (if js_gt v (snd acc) then v else snd acc)
      in (mn, mx))"

definition scan_range :: "sample_buffer \<Rightarrow> jsnum \<times> jsnum" where
  "scan_range buf =
     foldl (\<lambda>acc y. foldl (\<lambda>acc x. scan_step acc (buf_get buf y x)) acc [0..<buf_width buf])
       (PosInf, NegInf) [0..<buf_height buf]"

text \<open>One sample: \<open>Math.round(Math.min(255, Math.max(0, ((rawValue - min) / range) * 255)))\<close>.\<close>

definition normalize_sample :: "jsnum \<Rightarrow> jsnum \<Rightarrow> jsnum \<Rightarrow> jsnum" where
  "normalize_sample mn rng rawValue =
     math_round (math_min (Fin 255)
       (math_max (Fin 0) (js_mul (js_div (js_sub rawValue mn) rng) (Fin 255))))"

text \<open>
  The four stores of one pixel at \<open>idx\<close>. A store beyond the end of a typed array is
  ignored, as \<open>list_update\<close> is.
\<close>

definition put_pixel :: "nat list \<Rightarrow> nat \<Rightarrow> jsnum \<Rightarrow> nat list" where
  "put_pixel d idx v =
     d[idx := to_uint8_clamped v,
       idx + 1 := to_uint8_clamped v,
       idx + 2 := to_uint8_clamped v,
       idx + 3 := to_uint8_clamped (Fin 255)]"

definition fill_row :: "sample_buffer \<Rightarrow> jsnum \<Rightarrow> jsnum \<Rightarrow> nat \<Rightarrow> nat \<Rightarrow> nat list \<Rightarrow> nat list" where
  "fill_row buf mn rng y n d =
     foldl (\<lambda>d x. put_pixel d ((y * buf_width buf + x) * 4)
                     (normalize_sample mn rng (buf_get buf y x))) d [0..<n]"

definition fill_rows :: "sample_buffer \<Rightarrow> jsnum \<Rightarrow> jsnum \<Rightarrow> nat \<Rightarrow> nat list \<Rightarrow> nat list" where
  "fill_rows buf mn rng m d =
     foldl (\<lambda>d y. fill_row buf mn rng y (buf_width buf) d) d [0..<m]"

text \<open>The byte that the loop stores for channel \<open>c\<close> of the sample at row \<open>y\<close>, column \<open>x\<close>.\<close>

definition sample_byte :: "sample_buffer \<Rightarrow> jsnum \<Rightarrow> jsnum \<Rightarrow> nat \<Rightarrow> nat \<Rightarrow> nat \<Rightarrow> nat" where
  "sample_byte buf mn rng y x c =
     (if c = 3 then 255 else to_uint8_clamped (normalize_sample mn rng (buf_get buf y x)))"

text \<open>
  The normalization state after the auto-normalize block: both fields are scanned from the
  buffer when auto-normalization is on and one of them is null, and a field is stored only
  where it was null.
\<close>

definition needs_scan :: "tile_source \<Rightarrow> bool" where
  "needs_scan s = (autoNormalize s \<and> (minValue s = Null \<or> maxValue s = Null))"

definition store_range :: "tile_source \<Rightarrow> sample_buffer \<Rightarrow> tile_source" where
  "store_range s buf =
     (if needs_scan s
      then s\<lparr> minValue := (if minValue s = Null then Num (fst (scan_range buf)) else minValue s),
              maxValue := (if maxValue s = Null then Num (snd (scan_range buf)) else maxValue s) \<rparr>
      else s)"

text \<open>The locals \<open>min\<close> and \<open>max\<close> after the auto-normalize block.\<close>

definition local_min :: "tile_source \<Rightarrow> sample_buffer \<Rightarrow> js_value" where
  "local_min s buf = (if needs_scan s then Num (fst (scan_range buf)) else minValue s)"

definition local_max :: "tile_source \<Rightarrow> sample_buffer \<Rightarrow> js_value" where
  "local_max s buf = (if needs_scan s then Num (snd (scan_range buf)) else maxValue s)"

text \<open>
  \<open>min = this.minValue || min || 0\<close>, \<open>max = this.maxValue || max || 255\<close> and
  \<open>range = max - min || 1\<close>, read after the fields were stored.
\<close>

definition used_min :: "tile_source \<Rightarrow> sample_buffer \<Rightarrow> jsnum" where
  "used_min s buf =
     to_number (js_or (js_or (minValue (store_range s buf)) (local_min s buf)) (Num (Fin 0)))"

definition used_max :: "tile_source \<Rightarrow> sample_buffer \<Rightarrow> jsnum" where
  "used_max s buf =
     to_number (js_or (js_or (maxValue (store_range s buf)) (local_max s buf)) (Num (Fin 255)))"

definition range_of :: "jsnum \<Rightarrow> jsnum \<Rightarrow> jsnum" where
  "range_of mn mx = to_number (js_or (Num (js_sub mx mn)) (Num (Fin 1)))"

text \<open>
  \<open>createImageData(width, height)\<close> raises an \<open>IndexSizeError\<close> when a side is zero (the
  message text is the browser's); otherwise the image data starts as transparent black and
  has the size of the arguments.
\<close>

definition dataToCanvas ::
  "tile_source \<Rightarrow> sample_buffer \<Rightarrow> nat \<Rightarrow> nat \<Rightarrow> string + (tile_source \<times> canvas)" where
  "dataToCanvas s buf width height =
     (if width = 0 \<or> height = 0 then Inl ''IndexSizeError''
      else
        let imageData = replicate (width * height * 4) 0;
            mn = used_min s buf;
            mx = used_max s buf;
            rng = range_of mn mx;
            filled = fill_rows buf mn rng (buf_height buf) imageData
        in Inr (store_range s buf,
                \<lparr> canvas_width = width, canvas_height = height, pixels = filled \<rparr>))"

section \<open>Tile requests: \<open>getTileImage\<close> and \<open>downloadTileStart\<close>\<close>

text \<open>Decimal rendering of the integers interpolated into the cache key and the messages.\<close>

definition digit_char :: "nat \<Rightarrow> char" where
  "digit_char n = ''0123456789'' ! (n mod 10)"

fun dec_nat :: "nat \<Rightarrow> string" where
  "dec_nat n = (if n < 10 then [digit_char n] else dec_nat (n div 10) @ [digit_char n])"

declare dec_nat.simps [simp del]

definition dec_int :: "int \<Rightarrow> string" where
  "dec_int i = (if i < 0 then CHR ''-'' # dec_nat (nat (- i)) else dec_nat (nat i))"

definition cacheKey :: "tile \<Rightarrow> string" where
  "cacheKey t = dec_int (tile_level t) @ ''-'' @ dec_int (tile_x t) @ ''-'' @ dec_int (tile_y t)"

definition invalid_level_message :: "int \<Rightarrow> nat \<Rightarrow> string" where
  "invalid_level_message zarrLevelIndex totalLevels =
     ''Invalid zarr level index: '' @ dec_int zarrLevelIndex
       @ '' (total levels: '' @ dec_nat totalLevels @ '')''"

text \<open>\<open>error.message || 'Unknown error'\<close>: an empty message is falsy.\<close>

definition message_or_unknown :: "string \<Rightarrow> string" where
  "message_or_unknown m = (if m = [] then ''Unknown error'' else m)"

text \<open>Indexing a JavaScript array: \<open>undefined\<close> out of range.\<close>

definition js_index :: "nat list \<Rightarrow> nat \<Rightarrow> nat option" where
  "js_index xs i = (if i < length xs then Some (xs ! i) else None)"

text \<open>
  \<open>[start, Math.min(start + size, extent)]\<close> with \<open>start = coord * size\<close>; \<open>None\<close> is the NaN
  that arithmetic on an undefined entry gives.
\<close>

definition tile_range :: "int \<Rightarrow> nat option \<Rightarrow> nat option \<Rightarrow> range" where
  "tile_range coord tileSide extent =
     (let start = map_option (\<lambda>sz. coord * int sz) tileSide;
          stop = (case (start, tileSide, extent) of
                    (Some st, Some sz, Some ext) \<Rightarrow> Some (min (st + int sz) (int ext))
                  | _ \<Rightarrow> None)
      in (start, stop))"

definition hasChannels :: "zarr_array \<Rightarrow> bool" where
  "hasChannels a = (length (shape a) = 3)"

definition tileWidth :: "zarr_array \<Rightarrow> nat option" where
  "tileWidth a = (if hasChannels a then js_index (chunks a) 2 else js_index (chunks a) 1)"

definition tileHeight :: "zarr_array \<Rightarrow> nat option" where
  "tileHeight a = (if hasChannels a then js_index (chunks a) 1 else js_index (chunks a) 0)"

definition tile_selection :: "zarr_array \<Rightarrow> tile \<Rightarrow> selection" where
  "tile_selection a t =
     (if hasChannels a
      then Sel3 0 (tile_range (tile_y t) (tileHeight a) (js_index (shape a) 1))
                  (tile_range (tile_x t) (tileWidth a) (js_index (shape a) 2))
      else Sel2 (tile_range (tile_y t) (tileHeight a) (js_index (shape a) 0))
                (tile_range (tile_x t) (tileWidth a) (js_index (shape a) 1)))"

text \<open>
  An \<open>Image\<close> is created from \<open>canvas.toDataURL()\<close>; the browser then fires \<open>load\<close> or
  \<open>error\<close>, as \<open>decodes\<close> tells, and the handler calls \<open>context.finish\<close>.
\<close>

definition deliver_image :: "(canvas \<Rightarrow> bool) \<Rightarrow> canvas \<Rightarrow> string \<Rightarrow> event" where
  "deliver_image decodes cv failure = (if decodes cv then Finish_ok cv else Finish_err failure)"

text \<open>An undefined size argument converts to 0 on the canvas and in \<open>createImageData\<close>.\<close>

definition size_arg :: "nat option \<Rightarrow> nat" where
  "size_arg v = (case v of None \<Rightarrow> 0 | Some n \<Rightarrow> n)"

text \<open>
  What follows the awaited region read once it has settled, in the state the tile source
  has at that moment. A rejection and an exception of \<open>dataToCanvas\<close> both reach the
  \<open>catch\<close> block.
\<close>

definition after_read ::
  "(canvas \<Rightarrow> bool) \<Rightarrow> tile_source \<Rightarrow> string \<Rightarrow> zarr_array \<Rightarrow> sample_buffer settle
     \<Rightarrow> tile_source \<times> event list" where
  "after_read decodes s key a outcome =
     (case outcome of
        Pending \<Rightarrow> (s, [])
      | Rejected m \<Rightarrow> (s, [Finish_err (message_or_unknown m)])
      | Resolved tileData \<Rightarrow>
          (case dataToCanvas s tileData (size_arg (tileWidth a)) (size_arg (tileHeight a)) of
             Inl m \<Rightarrow>
               (s, [Normalize (buf_height tileData) (buf_width tileData),
                    Finish_err (message_or_unknown m)])
           | Inr (s', cv) \<Rightarrow>
               (addToCache s' key cv,
                [Normalize (buf_height tileData) (buf_width tileData),
                 deliver_image decodes cv ''Failed to create image from canvas''])))"

text \<open>
  \<open>getTileImage\<close>: the new state, the events in order, and how the promise of the async
  function ends. It rejects only when \<open>context.tile\<close> cannot be destructured, which happens
  before the \<open>try\<close> block (the message of that \<open>TypeError\<close> is the engine's; its name
  stands for it here); it never settles when the region read never does.
\<close>

definition getTileImage ::
  "(canvas \<Rightarrow> bool) \<Rightarrow> tile_source \<Rightarrow> request_context
     \<Rightarrow> tile_source \<times> event list \<times> unit settle" where
  "getTileImage decodes s ctx =
     (case ctx_tile ctx of
        None \<Rightarrow> (s, [], Rejected ''TypeError'')
      | Some t \<Rightarrow>
          (if map_has (tileCache s) (cacheKey t)
           then (case map_get (tileCache s) (cacheKey t) of
                   None \<Rightarrow> (s, [], Resolved ())
                 | Some cv \<Rightarrow>
                     (s, [deliver_image decodes cv ''Failed to load cached tile''], Resolved ()))
           else
             let totalLevels = length (zarrArrays s);
                 zarrLevelIndex = int totalLevels - 1 - tile_level t
             in if zarrLevelIndex < 0 \<or> int totalLevels \<le> zarrLevelIndex
                then (s, [Finish_err (message_or_unknown
                                        (invalid_level_message zarrLevelIndex totalLevels))],
                      Resolved ())
                else
                  let a = array (zarrArrays s ! nat zarrLevelIndex);
                      sel = tile_selection a t;
                      outcome = array_get a sel;
                      (s', evs) = after_read decodes s (cacheKey t) a outcome
                  in (s', Fetch (nat zarrLevelIndex) sel # evs,
                      (case outcome of Pending \<Rightarrow> Pending | _ \<Rightarrow> Resolved ()))))"

text \<open>\<open>downloadTileStart\<close>: a rejection of \<open>getTileImage\<close> is turned into a failure delivery.\<close>

definition downloadTileStart ::
  "(canvas \<Rightarrow> bool) \<Rightarrow> tile_source \<Rightarrow> request_context \<Rightarrow> tile_source \<times> event list" where
  "downloadTileStart decodes s ctx =
     (case getTileImage decodes s ctx of
        (s', evs, Rejected m) \<Rightarrow> (s', evs @ [Finish_err m])
      | (s', evs, _) \<Rightarrow> (s', evs))"

fun is_finish :: "event \<Rightarrow> bool" where
  "is_finish (Finish_ok cv) = True"
| "is_finish (Finish_err m) = True"
| "is_finish _ = False"

fun is_fetch :: "event \<Rightarrow> bool" where
  "is_fetch (Fetch i sel) = True"
| "is_fetch _ = False"

fun is_normalize :: "event \<Rightarrow> bool" where
  "is_normalize (Normalize h w) = True"
| "is_normalize _ = False"


section \<open>The per-sample mapping as the specification words it\<close>

text \<open>
  \<open>intensity = round(clamp((value - min) / (max - min || 1), 0, 1) * 255)\<close>, with the clamp
  taken as \<open>Math.min(1, Math.max(0, t))\<close>.
\<close>

definition clamp01 :: "jsnum \<Rightarrow> jsnum" where
  "clamp01 t = math_min (Fin 1) (math_max (Fin 0) t)"

definition spec_intensity :: "jsnum \<Rightarrow> jsnum \<Rightarrow> jsnum \<Rightarrow> jsnum" where
  "spec_intensity mn mx v =
     math_round (js_mul
       (clamp01 (js_div (js_sub v mn) (to_number (js_or (Num (js_sub mx mn)) (Num (Fin 1))))))
       (Fin 255))"

section \<open>Concrete inputs\<close>

text \<open>A buffer given by its rows, a store whose every read has one outcome, and a browser
  that decodes every canvas with a non-empty area.\<close>

definition rows_buffer :: "jsnum list list \<Rightarrow> sample_buffer" where
  "rows_buffer rows =
     \<lparr> buf_height = length rows,
       buf_width = (case rows of [] \<Rightarrow> 0 | r # rs \<Rightarrow> length r),
       buf_get = (\<lambda>y x. rows ! y ! x) \<rparr>"

definition every_read :: "sample_buffer settle \<Rightarrow> selection \<Rightarrow> sample_buffer settle" where
  "every_read outcome sel = outcome"

definition decodes_nonempty :: "canvas \<Rightarrow> bool" where
  "decodes_nonempty cv = (0 < canvas_width cv \<and> 0 < canvas_height cv)"

definition default_options :: options where
  "default_options =
     \<lparr> opt_maxCacheSize = Undefined, opt_autoNormalize = Undefined,
       opt_fixedMin = Undefined, opt_fixedMax = Undefined \<rparr>"

text \<open>
  The pyramid of the specification's scenario, three levels with a channel axis and chunks
  of 256 by 256, and a small pyramid of two levels without one, the finer of 3 by 3 samples
  in chunks of 2 by 2. Every read of their stores has the given outcome.
\<close>

definition scenario_pyramid :: "sample_buffer settle \<Rightarrow> tile_source" where
  "scenario_pyramid outcome =
     (constructor ''http://localhost:8080/zarr/mosaic.ome.zarr'' default_options)
       \<lparr> zarrArrays :=
           [\<lparr> path = ''0'', array = \<lparr> shape = [3, 1000, 1000], chunks = [1, 256, 256],
                                      array_get = every_read outcome \<rparr> \<rparr>,
            \<lparr> path = ''1'', array = \<lparr> shape = [3, 500, 500], chunks = [1, 256, 256],
                                      array_get = every_read outcome \<rparr> \<rparr>,
            \<lparr> path = ''2'', array = \<lparr> shape = [3, 250, 250], chunks = [1, 256, 256],
                                      array_get = every_read outcome \<rparr> \<rparr>] \<rparr>"

definition small_pyramid :: "sample_buffer settle \<Rightarrow> tile_source" where
  "small_pyramid outcome =
     (constructor ''http://localhost:8080/zarr/small.ome.zarr'' default_options)
       \<lparr> zarrArrays :=
           [\<lparr> path = ''0'', array = \<lparr> shape = [3, 3], chunks = [2, 2],
                                      array_get = every_read outcome \<rparr> \<rparr>,
            \<lparr> path = ''1'', array = \<lparr> shape = [2, 2], chunks = [2, 2],
                                      array_get = every_read outcome \<rparr> \<rparr>] \<rparr>"

definition request :: "int \<Rightarrow> int \<Rightarrow> int \<Rightarrow> request_context" where
  "request lv tx ty = \<lparr> ctx_tile = Some \<lparr> tile_level = lv, tile_x = tx, tile_y = ty \<rparr> \<rparr>"

section \<open>Properties of the constructor and the tile cache\<close>

lemma falsy_default: "\<not> truthy a \<Longrightarrow> js_or a b = b"
  by (simp add: js_or_def)

lemma truthy_not_zero: "truthy a \<Longrightarrow> to_number a \<noteq> Fin 0"
  by (cases a rule: truthy.cases) simp_all

text \<open>
  C10. When the option \<open>maxCacheSize\<close> is falsy (absent, null, 0 or NaN) the capacity is 100;
  in particular 0 gives 100, and no options object gives a capacity of 0.
\<close>

theorem maxCacheSize_falsy_is_100:
  "(\<not> truthy (opt_maxCacheSize opts) \<longrightarrow> maxCacheSize (constructor url opts) = Num (Fin 100))
   \<and> (v \<in> {Undefined, Null, Num (Fin 0), Num NaN} \<longrightarrow>
        maxCacheSize (constructor url (opts\<lparr>opt_maxCacheSize := v\<rparr>)) = Num (Fin 100))
   \<and> to_number (maxCacheSize (constructor url opts)) \<noteq> Fin 0"
proof -
  have "to_number (js_or (opt_maxCacheSize opts) (Num (Fin 100))) \<noteq> Fin 0"
    by (cases "truthy (opt_maxCacheSize opts)") (simp_all add: js_or_def truthy_not_zero)
  then show ?thesis
    by (auto simp: constructor_def falsy_default)
qed

theorem maxCacheSize_falsy_is_100_witness:
  "\<not> truthy (opt_maxCacheSize
       \<lparr>opt_maxCacheSize = Num (Fin 0), opt_autoNormalize = Undefined,
        opt_fixedMin = Undefined, opt_fixedMax = Undefined\<rparr>)
   \<and> Num (Fin 0) \<in> {Undefined, Null, Num (Fin 0), Num NaN}
   \<and> maxCacheSize (constructor ''http://localhost:8080/zarr/mosaic.ome.zarr''
        \<lparr>opt_maxCacheSize = Num (Fin 0), opt_autoNormalize = Undefined,
         opt_fixedMin = Undefined, opt_fixedMax = Undefined\<rparr>) = Num (Fin 100)"
  using maxCacheSize_falsy_is_100
    [of "\<lparr>opt_maxCacheSize = Num (Fin 0), opt_autoNormalize = Undefined,
          opt_fixedMin = Undefined, opt_fixedMax = Undefined\<rparr>"
        "''http://localhost:8080/zarr/mosaic.ome.zarr''" "Num (Fin 0)"]
  by simp

lemma map_set_length:
  "length (map_set m k v) = (if map_has m k then length m else Suc (length m))"
  by (induction m) (force simp: map_has_def)+

lemma map_set_new: "\<not> map_has m k \<Longrightarrow> map_set m k v = m @ [(k, v)]"
  by (induction m) (auto simp: map_has_def)

lemma map_has_tl: "\<not> map_has m k \<Longrightarrow> \<not> map_has (tl m) k"
  by (cases m) (auto simp: map_has_def)

lemma map_has_get: "map_has m k \<Longrightarrow> \<exists>v. map_get m k = Some v"
  unfolding map_has_def map_get_def
  by (metis domD dom_map_of_conv_image_fst)

lemma addToCache_full:
  assumes "maxCacheSize s = Num (Fin (of_nat N))" "0 < N" "length (tileCache s) = N"
  shows "tileCache (addToCache s k v) = map_set (tl (tileCache s)) k v"
  using assms by (cases "tileCache s") (auto simp: addToCache_def Let_def)

lemma addToCache_room:
  assumes "maxCacheSize s = Num (Fin (of_nat N))" "length (tileCache s) < N"
  shows "tileCache (addToCache s k v) = map_set (tileCache s) k v"
  using assms by (auto simp: addToCache_def Let_def)

lemma addToCache_bound:
  assumes "maxCacheSize s = Num (Fin (of_nat N))" "0 < N" "length (tileCache s) \<le> N"
  shows "length (tileCache (addToCache s k v)) \<le> N"
proof (cases "length (tileCache s) = N")
  case True
  then show ?thesis
    using assms addToCache_full [OF assms(1,2) True, of k v]
    by (simp add: map_set_length)
next
  case False
  then have "length (tileCache s) < N"
    using assms by simp
  then show ?thesis
    using addToCache_room [OF assms(1), of k v]
    by (simp add: map_set_length)
qed

lemma addToCache_fields:
  "maxCacheSize (addToCache s k v) = maxCacheSize s"
  "minValue (addToCache s k v) = minValue s"
  "maxValue (addToCache s k v) = maxValue s"
  "autoNormalize (addToCache s k v) = autoNormalize s"
  "zarrArrays (addToCache s k v) = zarrArrays s"
  by (simp_all add: addToCache_def Let_def)

lemma cache_step_capacity: "maxCacheSize (cache_step s c) = maxCacheSize s"
  by (cases c) (auto simp: addToCache_fields split: option.splits)

lemma run_cache_bound:
  assumes "maxCacheSize s = Num (Fin (of_nat N))" "0 < N" "length (tileCache s) \<le> N"
  shows "length (tileCache (run_cache s ops)) \<le> N"
  using assms unfolding run_cache_def
proof (induction ops arbitrary: s)
  case Nil
  then show ?case by simp
next
  case (Cons c ops)
  have "length (tileCache (cache_step s c)) \<le> N"
    using Cons.prems by (cases c) (auto simp: addToCache_bound split: option.splits)
  then show ?case
    using Cons by (simp add: cache_step_capacity)
qed

lemma run_cache_gets: "run_cache s ops = run_cache s (filter is_put ops)"
  unfolding run_cache_def
  by (induction ops arbitrary: s) (auto split: option.splits elim: is_put.elims)

lemma run_cache_abc:
  assumes "maxCacheSize s = Num (Fin 2)" "tileCache s = []" "distinct [A, B, C]"
  shows "tileCache (run_cache s [Put A a, Put B b, Put C c]) = [(B, b), (C, c)]"
  using assms by (simp add: run_cache_def addToCache_def Let_def)

text \<open>
  C4. With a capacity \<open>N\<close> of at least one entry, whatever the sequence of puts and gets, the
  cache never holds more than \<open>N\<close> entries; a put on a full cache removes the oldest-inserted
  entry and only that one before it inserts (a new key goes to the end); a put on a cache
  that is not full removes nothing; gets change nothing, so the outcome of a sequence is that
  of its puts alone; and with capacity 2, putting the distinct keys A, B, C in order leaves
  exactly B and C.
\<close>

theorem tile_cache_bounded_fifo:
  assumes "maxCacheSize s = Num (Fin (of_nat N))" and "0 < N" and "length (tileCache s) \<le> N"
  shows "length (tileCache (run_cache s ops)) \<le> N
     \<and> (length (tileCache s) = N \<longrightarrow>
          tileCache (addToCache s k cv) = map_set (tl (tileCache s)) k cv)
     \<and> (length (tileCache s) = N \<and> \<not> map_has (tileCache s) k \<longrightarrow>
          tileCache (addToCache s k cv) = tl (tileCache s) @ [(k, cv)])
     \<and> (length (tileCache s) < N \<longrightarrow>
          tileCache (addToCache s k cv) = map_set (tileCache s) k cv)
     \<and> run_cache s ops = run_cache s (filter is_put ops)
     \<and> (N = 2 \<and> tileCache s = [] \<and> distinct [A, B, C] \<longrightarrow>
          map fst (tileCache (run_cache s [Put A a, Put B b, Put C c])) = [B, C])"
proof -
  have bound: "length (tileCache (run_cache s ops)) \<le> N"
    using assms by (rule run_cache_bound)
  have full: "length (tileCache s) = N \<longrightarrow>
      tileCache (addToCache s k cv) = map_set (tl (tileCache s)) k cv"
    using assms(1,2) by (simp add: addToCache_full)
  have fresh: "length (tileCache s) = N \<and> \<not> map_has (tileCache s) k \<longrightarrow>
      tileCache (addToCache s k cv) = tl (tileCache s) @ [(k, cv)]"
    using full by (simp add: map_set_new map_has_tl)
  have room: "length (tileCache s) < N \<longrightarrow>
      tileCache (addToCache s k cv) = map_set (tileCache s) k cv"
    using assms(1) by (simp add: addToCache_room)
  have abc: "N = 2 \<and> tileCache s = [] \<and> distinct [A, B, C] \<longrightarrow>
      map fst (tileCache (run_cache s [Put A a, Put B b, Put C c])) = [B, C]"
  proof
    assume h: "N = 2 \<and> tileCache s = [] \<and> distinct [A, B, C]"
    then have "maxCacheSize s = Num (Fin 2)"
      using assms(1) by simp
    then show "map fst (tileCache (run_cache s [Put A a, Put B b, Put C c])) = [B, C]"
      using h by (simp add: run_cache_abc)
  qed
  show ?thesis
    using bound full fresh room abc run_cache_gets [of s ops] by blast
qed

theorem tile_cache_bounded_fifo_witness:
  "maxCacheSize (constructor ''u'' \<lparr>opt_maxCacheSize = Num (Fin 2), opt_autoNormalize = Undefined,
        opt_fixedMin = Undefined, opt_fixedMax = Undefined\<rparr>) = Num (Fin (of_nat 2))
   \<and> 0 < (2::nat)
   \<and> length (tileCache (constructor ''u'' \<lparr>opt_maxCacheSize = Num (Fin 2),
        opt_autoNormalize = Undefined, opt_fixedMin = Undefined, opt_fixedMax = Undefined\<rparr>)) \<le> 2
   \<and> length (tileCache (run_cache (constructor ''u'' \<lparr>opt_maxCacheSize = Num (Fin 2),
        opt_autoNormalize = Undefined, opt_fixedMin = Undefined, opt_fixedMax = Undefined\<rparr>)
        [Put ''A'' \<lparr>canvas_width = 1, canvas_height = 1, pixels = [0, 0, 0, 255]\<rparr>,
         Get ''A'',
         Put ''B'' \<lparr>canvas_width = 1, canvas_height = 1, pixels = [9, 9, 9, 255]\<rparr>,
         Get ''A'',
         Put ''C'' \<lparr>canvas_width = 1, canvas_height = 1, pixels = [7, 7, 7, 255]\<rparr>])) \<le> 2
   \<and> map fst (tileCache (run_cache (constructor ''u'' \<lparr>opt_maxCacheSize = Num (Fin 2),
        opt_autoNormalize = Undefined, opt_fixedMin = Undefined, opt_fixedMax = Undefined\<rparr>)
        [Put ''A'' \<lparr>canvas_width = 1, canvas_height = 1, pixels = [0, 0, 0, 255]\<rparr>,
         Get ''A'',
         Put ''B'' \<lparr>canvas_width = 1, canvas_height = 1, pixels = [9, 9, 9, 255]\<rparr>,
         Get ''A'',
         Put ''C'' \<lparr>canvas_width = 1, canvas_height = 1, pixels = [7, 7, 7, 255]\<rparr>]))
       = [''B'', ''C'']"
  using tile_cache_bounded_fifo
    [where s = "constructor ''u'' \<lparr>opt_maxCacheSize = Num (Fin 2), opt_autoNormalize = Undefined,
        opt_fixedMin = Undefined, opt_fixedMax = Undefined\<rparr>"
       and N = 2
       and ops = "[Put ''A'' \<lparr>canvas_width = 1, canvas_height = 1, pixels = [0, 0, 0, 255]\<rparr>,
         Get ''A'',
         Put ''B'' \<lparr>canvas_width = 1, canvas_height = 1, pixels = [9, 9, 9, 255]\<rparr>,
         Get ''A'',
         Put ''C'' \<lparr>canvas_width = 1, canvas_height = 1, pixels = [7, 7, 7, 255]\<rparr>]"
       and k = "''A''" and cv = "\<lparr>canvas_width = 1, canvas_height = 1, pixels = [0, 0, 0, 255]\<rparr>"
       and A = "''A''" and B = "''B''" and C = "''C''"
       and a = "\<lparr>canvas_width = 1, canvas_height = 1, pixels = [0, 0, 0, 255]\<rparr>"
       and b = "\<lparr>canvas_width = 1, canvas_height = 1, pixels = [9, 9, 9, 255]\<rparr>"
       and c = "\<lparr>canvas_width = 1, canvas_height = 1, pixels = [7, 7, 7, 255]\<rparr>"]
  by (simp add: constructor_def js_or_def run_cache_def addToCache_def map_get_def)

section \<open>Properties of tile requests\<close>

lemma invalid_level_message_nonempty: "invalid_level_message i n \<noteq> []"
  by (simp add: invalid_level_message_def)

lemma message_or_unknown_nonempty: "message_or_unknown m \<noteq> []"
  by (simp add: message_or_unknown_def)

lemma after_read_no_fetch: "filter is_fetch (snd (after_read decodes s key a outcome)) = []"
  by (auto simp: after_read_def deliver_image_def split: settle.splits sum.splits)

lemma after_read_finishes:
  "length (filter is_finish (snd (after_read decodes s key a outcome))) = (if outcome = Pending then 0 else 1)"
  by (auto simp: after_read_def deliver_image_def split: settle.splits sum.splits)

lemma after_read_messages:
  "Finish_err m \<in> set (snd (after_read decodes s key a outcome)) \<Longrightarrow> m \<noteq> []"
  by (auto simp: after_read_def deliver_image_def message_or_unknown_def split: settle.splits sum.splits if_splits)

lemma getTileImage_miss_valid:
  assumes "ctx_tile ctx = Some t" "\<not> map_has (tileCache s) (cacheKey t)"
    "0 \<le> tile_level t" "tile_level t \<le> int (length (zarrArrays s)) - 1"
  shows "getTileImage decodes s ctx =
    (let i = nat (int (length (zarrArrays s)) - 1 - tile_level t);
         a = array (zarrArrays s ! i);
         sel = tile_selection a t;
         r = after_read decodes s (cacheKey t) a (array_get a sel)
     in (fst r, Fetch i sel # snd r,
         case array_get a sel of Pending \<Rightarrow> Pending | _ \<Rightarrow> Resolved ()))"
  using assms by (simp add: getTileImage_def Let_def split: prod.splits)

lemma getTileImage_miss_invalid:
  assumes "ctx_tile ctx = Some t" "\<not> map_has (tileCache s) (cacheKey t)"
    "int (length (zarrArrays s)) - 1 - tile_level t < 0 \<or> int (length (zarrArrays s)) - 1 < int (length (zarrArrays s)) - 1 - tile_level t"
  shows "getTileImage decodes s ctx =
    (s, [Finish_err (invalid_level_message (int (length (zarrArrays s)) - 1 - tile_level t) (length (zarrArrays s)))], Resolved ())"
  using assms by (auto simp: getTileImage_def Let_def message_or_unknown_def invalid_level_message_nonempty)

lemma getTileImage_hit:
  assumes "ctx_tile ctx = Some t" "map_has (tileCache s) (cacheKey t)"
  shows "\<exists>cv. map_get (tileCache s) (cacheKey t) = Some cv \<and> getTileImage decodes s ctx =
    (s, [deliver_image decodes cv ''Failed to load cached tile''], Resolved ())"
  using assms map_has_get[OF assms(2)] by (auto simp: getTileImage_def)

lemma getTileImage_no_tile:
  "ctx_tile ctx = None \<Longrightarrow> getTileImage decodes s ctx = (s, [], Rejected ''TypeError'')"
  by (simp add: getTileImage_def)

text \<open>The four ways a request can go: no tile in the context, a cache hit, a level out of
  range, and a region read followed by what \<open>after_read\<close> does.\<close>

lemma downloadTileStart_cases:
  "(ctx_tile ctx = None \<and> downloadTileStart decodes s ctx = (s, [Finish_err ''TypeError'']))
 \<or> (\<exists>t cv. ctx_tile ctx = Some t \<and> map_has (tileCache s) (cacheKey t) \<and> map_get (tileCache s) (cacheKey t) = Some cv \<and>
       downloadTileStart decodes s ctx = (s, [deliver_image decodes cv ''Failed to load cached tile'']))
 \<or> (\<exists>t. ctx_tile ctx = Some t \<and> \<not> map_has (tileCache s) (cacheKey t) \<and>
       (int (length (zarrArrays s)) - 1 - tile_level t < 0 \<or> int (length (zarrArrays s)) - 1 < int (length (zarrArrays s)) - 1 - tile_level t) \<and>
       downloadTileStart decodes s ctx = (s, [Finish_err (invalid_level_message (int (length (zarrArrays s)) - 1 - tile_level t) (length (zarrArrays s)))]))
 \<or> (\<exists>t i a. ctx_tile ctx = Some t \<and> \<not> map_has (tileCache s) (cacheKey t) \<and>
       0 \<le> tile_level t \<and> tile_level t \<le> int (length (zarrArrays s)) - 1 \<and>
       i = nat (int (length (zarrArrays s)) - 1 - tile_level t) \<and> i < length (zarrArrays s) \<and> a = array (zarrArrays s ! i) \<and>
       downloadTileStart decodes s ctx =
         (fst (after_read decodes s (cacheKey t) a (array_get a (tile_selection a t))),
          Fetch i (tile_selection a t) # snd (after_read decodes s (cacheKey t) a (array_get a (tile_selection a t)))))"
proof (cases "ctx_tile ctx")
  case None
  then show ?thesis by (simp add: downloadTileStart_def getTileImage_no_tile)
next
  case (Some t)
  show ?thesis
  proof (cases "map_has (tileCache s) (cacheKey t)")
    case True
    then show ?thesis using getTileImage_hit[OF Some True, of decodes] Some
      by (auto simp: downloadTileStart_def)
  next
    case miss: False
    show ?thesis
    proof (cases "0 \<le> tile_level t \<and> tile_level t \<le> int (length (zarrArrays s)) - 1")
      case True
      then have "nat (int (length (zarrArrays s)) - 1 - tile_level t) < length (zarrArrays s)" by linarith
      then show ?thesis using getTileImage_miss_valid[OF Some miss, of decodes] True Some miss
        by (simp add: downloadTileStart_def Let_def split: settle.splits)
    next
      case False
      then have "int (length (zarrArrays s)) - 1 - tile_level t < 0 \<or> int (length (zarrArrays s)) - 1 < int (length (zarrArrays s)) - 1 - tile_level t"
        by linarith
      then show ?thesis using getTileImage_miss_invalid[OF Some miss, of decodes] Some miss
        by (simp add: downloadTileStart_def)
    qed
  qed
qed

text \<open>
  C1. On a cache miss, an engine level \<open>L\<close> between 0 and the number of levels minus one
  makes the request read, first of all and only once, from the array of storage level
  \<open>numberOfLevels - 1 - L\<close>; when \<open>numberOfLevels - 1 - L\<close> is outside that interval no read
  is issued and the request fails with the invalid-level message.
\<close>

theorem level_inversion:
  assumes "ctx_tile ctx = Some t" and "\<not> map_has (tileCache s) (cacheKey t)"
  shows "(0 \<le> tile_level t \<and> tile_level t \<le> int (length (zarrArrays s)) - 1 \<longrightarrow>
           (\<exists>evs. fst (snd (getTileImage decodes s ctx)) =
                    Fetch (nat (int (length (zarrArrays s)) - 1 - tile_level t))
                      (tile_selection
                         (array (zarrArrays s ! nat (int (length (zarrArrays s)) - 1 - tile_level t))) t)
                    # evs
                  \<and> filter is_fetch evs = []))
       \<and> (int (length (zarrArrays s)) - 1 - tile_level t < 0
            \<or> int (length (zarrArrays s)) - 1 < int (length (zarrArrays s)) - 1 - tile_level t \<longrightarrow>
           getTileImage decodes s ctx =
             (s, [Finish_err (invalid_level_message
                                (int (length (zarrArrays s)) - 1 - tile_level t)
                                (length (zarrArrays s)))], Resolved ()))"
proof (intro conjI impI)
  assume "0 \<le> tile_level t \<and> tile_level t \<le> int (length (zarrArrays s)) - 1"
  then show "\<exists>evs. fst (snd (getTileImage decodes s ctx)) =
                    Fetch (nat (int (length (zarrArrays s)) - 1 - tile_level t))
                      (tile_selection
                         (array (zarrArrays s ! nat (int (length (zarrArrays s)) - 1 - tile_level t))) t)
                    # evs
                  \<and> filter is_fetch evs = []"
    using getTileImage_miss_valid [OF assms, of decodes]
    by (simp add: Let_def after_read_no_fetch)
next
  assume "int (length (zarrArrays s)) - 1 - tile_level t < 0
            \<or> int (length (zarrArrays s)) - 1 < int (length (zarrArrays s)) - 1 - tile_level t"
  then show "getTileImage decodes s ctx =
             (s, [Finish_err (invalid_level_message
                                (int (length (zarrArrays s)) - 1 - tile_level t)
                                (length (zarrArrays s)))], Resolved ())"
    using getTileImage_miss_invalid [OF assms] by simp
qed

theorem level_inversion_witness:
  "ctx_tile (request 2 0 0) = Some \<lparr>tile_level = 2, tile_x = 0, tile_y = 0\<rparr>
   \<and> \<not> map_has (tileCache (scenario_pyramid Pending)) (cacheKey \<lparr>tile_level = 2, tile_x = 0, tile_y = 0\<rparr>)
   \<and> (0::int) \<le> 2 \<and> 2 \<le> int (length (zarrArrays (scenario_pyramid Pending))) - 1
   \<and> fst (snd (getTileImage decodes_nonempty (scenario_pyramid Pending) (request 2 0 0)))
       = [Fetch 0 (Sel3 0 (Some 0, Some 256) (Some 0, Some 256))]
   \<and> ctx_tile (request 3 0 0) = Some \<lparr>tile_level = 3, tile_x = 0, tile_y = 0\<rparr>
   \<and> int (length (zarrArrays (scenario_pyramid Pending))) - 1 - 3 < 0
   \<and> getTileImage decodes_nonempty (scenario_pyramid Pending) (request 3 0 0)
       = (scenario_pyramid Pending,
          [Finish_err ''Invalid zarr level index: -1 (total levels: 3)''], Resolved ())"
  using level_inversion [of "request 2 0 0" "\<lparr>tile_level = 2, tile_x = 0, tile_y = 0\<rparr>"
                            "scenario_pyramid Pending" decodes_nonempty]
        level_inversion [of "request 3 0 0" "\<lparr>tile_level = 3, tile_x = 0, tile_y = 0\<rparr>"
                            "scenario_pyramid Pending" decodes_nonempty]
  by (simp add: request_def scenario_pyramid_def constructor_def map_has_def
        tile_selection_def hasChannels_def tile_range_def tileWidth_def tileHeight_def
        js_index_def invalid_level_message_def dec_int_def dec_nat.simps digit_char_def
        getTileImage_def Let_def every_read_def after_read_def message_or_unknown_def)

lemma map_has_map_set: "map_has (map_set m k v) k"
  by (induction m) (force simp: map_has_def)+

lemma map_has_addToCache: "map_has (tileCache (addToCache s k v)) k"
  by (simp add: addToCache_def Let_def map_has_map_set)

lemma after_read_delivered_cached: "Finish_ok cv \<in> set (snd (after_read decodes s key a outcome))
   \<Longrightarrow> map_has (tileCache (fst (after_read decodes s key a outcome))) key"
  by (auto simp: after_read_def deliver_image_def map_has_addToCache split: settle.splits sum.splits if_splits)

lemma delivered_is_cached:
  assumes "ctx_tile ctx = Some t" "Finish_ok cv \<in> set (snd (downloadTileStart decodes s ctx))"
  shows "map_has (tileCache (fst (downloadTileStart decodes s ctx))) (cacheKey t)"
  using downloadTileStart_cases [of ctx decodes s] assms
  by (auto dest: after_read_delivered_cached)

subsection \<open>Evaluation on the concrete inputs\<close>

lemmas normalizer_defs = dataToCanvas_def used_min_def used_max_def local_min_def local_max_def
  store_range_def needs_scan_def range_of_def fill_rows_def fill_row_def put_pixel_def
  scan_range_def scan_step_def normalize_sample_def js_or_def js_gt_def rows_buffer_def
  round_half_even_def signed_inf_def Let_def

lemmas request_defs = downloadTileStart_def getTileImage_def after_read_def deliver_image_def
  decodes_nonempty_def every_read_def request_def cacheKey_def dec_int_def dec_nat.simps
  digit_char_def map_has_def map_get_def tile_selection_def hasChannels_def tile_range_def
  tileWidth_def tileHeight_def js_index_def size_arg_def message_or_unknown_def
  invalid_level_message_def Let_def

lemma small_pyramid_fields:
  "zarrArrays (small_pyramid r) =
     [\<lparr> path = ''0'', array = \<lparr> shape = [3, 3], chunks = [2, 2], array_get = every_read r \<rparr> \<rparr>,
      \<lparr> path = ''1'', array = \<lparr> shape = [2, 2], chunks = [2, 2], array_get = every_read r \<rparr> \<rparr>]"
  "tileCache (small_pyramid r) = []"
  "maxCacheSize (small_pyramid r) = Num (Fin 100)"
  "minValue (small_pyramid r) = Null"
  "maxValue (small_pyramid r) = Null"
  "autoNormalize (small_pyramid r) = True"
  by (simp_all add: small_pyramid_def constructor_def default_options_def js_or_def)

lemma scenario_pyramid_fields:
  "zarrArrays (scenario_pyramid r) =
     [\<lparr> path = ''0'', array = \<lparr> shape = [3, 1000, 1000], chunks = [1, 256, 256], array_get = every_read r \<rparr> \<rparr>,
      \<lparr> path = ''1'', array = \<lparr> shape = [3, 500, 500], chunks = [1, 256, 256], array_get = every_read r \<rparr> \<rparr>,
      \<lparr> path = ''2'', array = \<lparr> shape = [3, 250, 250], chunks = [1, 256, 256], array_get = every_read r \<rparr> \<rparr>]"
  "tileCache (scenario_pyramid r) = []"
  by (simp_all add: scenario_pyramid_def constructor_def default_options_def js_or_def)

lemma edge_tile_canvas:
  "dataToCanvas (small_pyramid r) (rows_buffer [[Fin 10], [Fin 30]]) 2 2 =
     Inr ((small_pyramid r)\<lparr> minValue := Num (Fin 10), maxValue := Num (Fin 30) \<rparr>,
          \<lparr> canvas_width = 2, canvas_height = 2,
            pixels = [0, 0, 0, 255, 255, 255, 255, 255, 0, 0, 0, 0, 0, 0, 0, 0] \<rparr>)"
  by (simp add: normalizer_defs small_pyramid_fields numeral_eq_Suc)

lemma edge_tile_request:
  "downloadTileStart decodes_nonempty
     (small_pyramid (Resolved (rows_buffer [[Fin 10], [Fin 30]]))) (request 1 1 0) =
     ((small_pyramid (Resolved (rows_buffer [[Fin 10], [Fin 30]])))
        \<lparr> minValue := Num (Fin 10), maxValue := Num (Fin 30),
          tileCache := [(''1-1-0'', \<lparr> canvas_width = 2, canvas_height = 2,
            pixels = [0, 0, 0, 255, 255, 255, 255, 255, 0, 0, 0, 0, 0, 0, 0, 0] \<rparr>)] \<rparr>,
      [Fetch 0 (Sel2 (Some 0, Some 2) (Some 2, Some 3)), Normalize 2 1,
       Finish_ok \<lparr> canvas_width = 2, canvas_height = 2,
            pixels = [0, 0, 0, 255, 255, 255, 255, 255, 0, 0, 0, 0, 0, 0, 0, 0] \<rparr>])"
  by (simp add: request_defs small_pyramid_fields edge_tile_canvas addToCache_def)
     (simp add: rows_buffer_def)

subsection \<open>Cache hits and deliveries\<close>

text \<open>
  C7. When the key of the requested tile is in the cache, the request delivers the image
  made from the cached canvas (a failure only if the browser cannot decode that canvas),
  leaves the tile source as it was, and issues no region read and no call of the
  normalizer. And once a request has delivered an image, the same request made again in the
  resulting state issues neither.
\<close>

theorem cache_hit_skips_fetch:
  assumes "ctx_tile ctx = Some t"
  shows "(map_has (tileCache s) (cacheKey t) \<longrightarrow>
            (\<exists>cv. map_get (tileCache s) (cacheKey t) = Some cv
               \<and> downloadTileStart decodes s ctx =
                   (s, [if decodes cv then Finish_ok cv
                        else Finish_err ''Failed to load cached tile''])
               \<and> filter is_fetch (snd (downloadTileStart decodes s ctx)) = []
               \<and> filter is_normalize (snd (downloadTileStart decodes s ctx)) = []))
     \<and> ((\<exists>cv. Finish_ok cv \<in> set (snd (downloadTileStart decodes s ctx))) \<longrightarrow>
            filter is_fetch
              (snd (downloadTileStart decodes (fst (downloadTileStart decodes s ctx)) ctx)) = []
          \<and> filter is_normalize
              (snd (downloadTileStart decodes (fst (downloadTileStart decodes s ctx)) ctx)) = [])"
proof -
  have hit: "\<exists>cv. map_get (tileCache s') (cacheKey t) = Some cv
               \<and> downloadTileStart decodes s' ctx =
                   (s', [if decodes cv then Finish_ok cv
                         else Finish_err ''Failed to load cached tile''])
               \<and> filter is_fetch (snd (downloadTileStart decodes s' ctx)) = []
               \<and> filter is_normalize (snd (downloadTileStart decodes s' ctx)) = []"
    if "map_has (tileCache s') (cacheKey t)" for s'
    using getTileImage_hit [OF assms that, of decodes]
    by (auto simp: downloadTileStart_def deliver_image_def)
  show ?thesis
    using hit [of s] hit [of "fst (downloadTileStart decodes s ctx)"]
      delivered_is_cached [OF assms, of _ decodes s]
    by metis
qed

theorem cache_hit_skips_fetch_witness:
  "ctx_tile (request 1 1 0) = Some \<lparr>tile_level = 1, tile_x = 1, tile_y = 0\<rparr>
   \<and> snd (downloadTileStart decodes_nonempty
            (small_pyramid (Resolved (rows_buffer [[Fin 10], [Fin 30]]))) (request 1 1 0))
       = [Fetch 0 (Sel2 (Some 0, Some 2) (Some 2, Some 3)), Normalize 2 1,
          Finish_ok \<lparr>canvas_width = 2, canvas_height = 2,
                     pixels = [0, 0, 0, 255, 255, 255, 255, 255, 0, 0, 0, 0, 0, 0, 0, 0]\<rparr>]
   \<and> map_has (tileCache (fst (downloadTileStart decodes_nonempty
                      (small_pyramid (Resolved (rows_buffer [[Fin 10], [Fin 30]])))
                      (request 1 1 0))))
        (cacheKey \<lparr>tile_level = 1, tile_x = 1, tile_y = 0\<rparr>)
   \<and> snd (downloadTileStart decodes_nonempty
            (fst (downloadTileStart decodes_nonempty
                    (small_pyramid (Resolved (rows_buffer [[Fin 10], [Fin 30]])))
                    (request 1 1 0)))
            (request 1 1 0))
       = [Finish_ok \<lparr>canvas_width = 2, canvas_height = 2,
                     pixels = [0, 0, 0, 255, 255, 255, 255, 255, 0, 0, 0, 0, 0, 0, 0, 0]\<rparr>]"
  using cache_hit_skips_fetch
    [of "request 1 1 0" "\<lparr>tile_level = 1, tile_x = 1, tile_y = 0\<rparr>"
        "fst (downloadTileStart decodes_nonempty
                (small_pyramid (Resolved (rows_buffer [[Fin 10], [Fin 30]]))) (request 1 1 0))"
        decodes_nonempty]
  by (simp add: edge_tile_request)
     (simp add: request_def cacheKey_def dec_int_def dec_nat.simps digit_char_def map_has_def
        map_get_def deliver_image_def decodes_nonempty_def)

text \<open>
  C8, as amended. A request calls \<open>context.finish\<close> at most once; it calls it exactly once
  when no region read of the store stays pending for ever; and every failure it delivers
  carries a non-empty message. \<open>downloadTileStart\<close> itself raises nothing: a rejection of
  \<open>getTileImage\<close> is delivered as a failure too.
\<close>

theorem exactly_one_delivery:
  "length (filter is_finish (snd (downloadTileStart decodes s ctx))) \<le> 1
   \<and> ((\<forall>lv\<in>set (zarrArrays s). \<forall>sel. array_get (array lv) sel \<noteq> Pending) \<longrightarrow>
        length (filter is_finish (snd (downloadTileStart decodes s ctx))) = 1)
   \<and> (\<forall>m. Finish_err m \<in> set (snd (downloadTileStart decodes s ctx)) \<longrightarrow> m \<noteq> [])"
  using downloadTileStart_cases [of ctx decodes s]
  by (elim disjE exE conjE)
     (auto simp: deliver_image_def after_read_finishes invalid_level_message_nonempty
           dest: after_read_messages)

theorem exactly_one_delivery_witness:
  "snd (downloadTileStart decodes_nonempty (small_pyramid (Rejected ''HTTP 404''))
          (request 1 1 0))
     = [Fetch 0 (Sel2 (Some 0, Some 2) (Some 2, Some 3)), Finish_err ''HTTP 404'']
   \<and> length (filter is_finish
        (snd (downloadTileStart decodes_nonempty (small_pyramid (Rejected ''HTTP 404''))
               (request 1 1 0)))) = 1"
proof -
  have settles: "\<forall>lv\<in>set (zarrArrays (small_pyramid (Rejected ''HTTP 404''))).
      \<forall>sel. array_get (array lv) sel \<noteq> Pending"
    by (simp add: small_pyramid_fields every_read_def)
  have once: "length (filter is_finish
        (snd (downloadTileStart decodes_nonempty (small_pyramid (Rejected ''HTTP 404''))
               (request 1 1 0)))) = 1"
    using exactly_one_delivery
      [of decodes_nonempty "small_pyramid (Rejected ''HTTP 404'')" "request 1 1 0"] settles
    by blast
  have "snd (downloadTileStart decodes_nonempty (small_pyramid (Rejected ''HTTP 404''))
          (request 1 1 0))
     = [Fetch 0 (Sel2 (Some 0, Some 2) (Some 2, Some 3)), Finish_err ''HTTP 404'']"
    by (simp add: request_defs small_pyramid_fields)
  then show ?thesis
    using once by blast
qed

text \<open>
  C8 as stated fails when the region read never settles: the request of the scenario, on a
  store whose reads stay pending, issues its read and never calls \<open>context.finish\<close>.
\<close>

theorem hung_read_never_delivers:
  "snd (downloadTileStart decodes_nonempty (scenario_pyramid Pending) (request 2 0 0))
     = [Fetch 0 (Sel3 0 (Some 0, Some 256) (Some 0, Some 256))]
   \<and> length (filter is_finish
        (snd (downloadTileStart decodes_nonempty (scenario_pyramid Pending) (request 2 0 0))))
       \<noteq> 1"
  by (simp add: request_defs scenario_pyramid_fields)

section \<open>Properties of the normalizer\<close>

subsection \<open>The pixel loops\<close>

lemma to_uint8_clamped_le: "to_uint8_clamped v \<le> 255"
proof (cases v)
  case (Fin r)
  show ?thesis
  proof (cases "0 < r \<and> r < 255")
    case True
    then have "\<lfloor>r\<rfloor> \<le> 254" by linarith
    then have "round_half_even r \<le> 255"
      by (simp add: round_half_even_def Let_def)
    then show ?thesis using Fin True by simp
  next
    case False
    then show ?thesis using Fin by auto
  qed
qed simp_all

lemma put_pixel_length: "length (put_pixel d idx v) = length d"
  by (simp add: put_pixel_def)

lemma put_pixel_nth:
  assumes "i < length d"
  shows "put_pixel d (k * 4) v ! i =
     (if i div 4 = k then (if i mod 4 = 3 then 255 else to_uint8_clamped v) else d ! i)"
proof -
  have "i div 4 = k \<longleftrightarrow> i = k * 4 \<or> i = k * 4 + 1 \<or> i = k * 4 + 2 \<or> i = k * 4 + 3"
    by presburger
  moreover have "i mod 4 = 3 \<longleftrightarrow> i = (i div 4) * 4 + 3"
    by presburger
  ultimately show ?thesis
    using assms by (auto simp: put_pixel_def nth_list_update)
qed

lemma fill_row_length: "length (fill_row buf mn rng y n d) = length d"
  unfolding fill_row_def by (induction n) (simp_all add: put_pixel_length)

lemma fill_row_Suc:
  "fill_row buf mn rng y (Suc n) d =
     put_pixel (fill_row buf mn rng y n d) ((y * buf_width buf + n) * 4)
       (normalize_sample mn rng (buf_get buf y n))"
  by (simp add: fill_row_def)

lemma fill_row_nth:
  assumes "i < length d"
  shows "fill_row buf mn rng y n d ! i =
     (if y * buf_width buf \<le> i div 4 \<and> i div 4 < y * buf_width buf + n
      then sample_byte buf mn rng y (i div 4 - y * buf_width buf) (i mod 4) else d ! i)"
proof (induction n)
  case 0
  then show ?case by (simp add: fill_row_def)
next
  case (Suc n)
  define r where "r = fill_row buf mn rng y n d"
  define k where "k = y * buf_width buf + n"
  have len: "i < length r"
    using assms by (simp add: r_def fill_row_length)
  have step: "fill_row buf mn rng y (Suc n) d ! i =
      (if i div 4 = k
       then (if i mod 4 = 3 then 255
             else to_uint8_clamped (normalize_sample mn rng (buf_get buf y n)))
       else r ! i)"
    unfolding fill_row_Suc r_def [symmetric] k_def [symmetric]
    by (rule put_pixel_nth [OF len])
  show ?case
  proof (cases "i div 4 = k")
    case True
    then show ?thesis
      unfolding step by (simp add: k_def sample_byte_def)
  next
    case False
    then have "(i div 4 < y * buf_width buf + Suc n) = (i div 4 < y * buf_width buf + n)"
      unfolding k_def by linarith
    then show ?thesis
      unfolding step using False Suc by (simp add: r_def)
  qed
qed

lemma fill_rows_length: "length (fill_rows buf mn rng m d) = length d"
  unfolding fill_rows_def by (induction m) (simp_all add: fill_row_length)

lemma fill_rows_Suc:
  "fill_rows buf mn rng (Suc m) d = fill_row buf mn rng m (buf_width buf) (fill_rows buf mn rng m d)"
  by (simp add: fill_rows_def)

lemma div_mod_row:
  fixes q W m :: nat
  assumes "m * W \<le> q" "q < m * W + W"
  shows "q div W = m" "q mod W = q - m * W"
proof -
  have W: "0 < W" using assms by (cases W) auto
  show "q div W = m"
    using assms W by (metis add.commute div_nat_eqI mult.commute mult_Suc_right)
  then show "q mod W = q - m * W"
    by (metis add_diff_cancel_left' mult.commute mult_div_mod_eq)
qed

lemma fill_rows_nth:
  assumes "i < length d"
  shows "fill_rows buf mn rng m d ! i =
     (if i div 4 < m * buf_width buf
      then sample_byte buf mn rng ((i div 4) div buf_width buf) ((i div 4) mod buf_width buf) (i mod 4)
      else d ! i)"
proof (induction m)
  case 0
  then show ?case by (simp add: fill_rows_def)
next
  case (Suc m)
  have len: "i < length (fill_rows buf mn rng m d)"
    using assms by (simp add: fill_rows_length)
  show ?case
  proof (cases "m * buf_width buf \<le> i div 4 \<and> i div 4 < m * buf_width buf + buf_width buf")
    case True
    then show ?thesis
      using div_mod_row [of m "buf_width buf" "i div 4"]
      by (simp add: fill_rows_Suc fill_row_nth [OF len])
  next
    case False
    then show ?thesis
      using Suc by (auto simp: fill_rows_Suc fill_row_nth [OF len])
  qed
qed

subsection \<open>The per-sample mapping\<close>

lemma clamp_scale:
  "math_min (Fin 255) (math_max (Fin 0) (js_mul t (Fin 255))) = js_mul (clamp01 t) (Fin 255)"
proof (cases t)
  case (Fin a)
  then show ?thesis by (simp add: clamp01_def)
qed (simp_all add: clamp01_def signed_inf_def)

lemma normalize_sample_spec:
  "normalize_sample mn (range_of mn mx) v = spec_intensity mn mx v"
  by (simp add: normalize_sample_def spec_intensity_def range_of_def clamp_scale)

lemma clamped_cases:
  "math_min (Fin 255) (math_max (Fin 0) t) = NaN \<or>
   (\<exists>r. 0 \<le> r \<and> r \<le> 255 \<and> math_min (Fin 255) (math_max (Fin 0) t) = Fin r)"
  by (cases t) auto

lemma normalize_sample_integer:
  "normalize_sample mn rng v = NaN \<or>
   (\<exists>k. 0 \<le> k \<and> k \<le> 255 \<and> normalize_sample mn rng v = Fin (of_int k))"
proof -
  let ?t = "js_mul (js_div (js_sub v mn) rng) (Fin 255)"
  from clamped_cases [of ?t] show ?thesis
  proof
    assume "math_min (Fin 255) (math_max (Fin 0) ?t) = NaN"
    then show ?thesis by (simp add: normalize_sample_def)
  next
    assume "\<exists>r. 0 \<le> r \<and> r \<le> 255 \<and> math_min (Fin 255) (math_max (Fin 0) ?t) = Fin r"
    then obtain r where r: "0 \<le> r" "r \<le> 255"
      and eq: "math_min (Fin 255) (math_max (Fin 0) ?t) = Fin r" by blast
    have "0 \<le> \<lfloor>r + 1 / 2\<rfloor>" using r by linarith
    moreover have "\<lfloor>r + 1 / 2\<rfloor> \<le> 255" using r by linarith
    ultimately show ?thesis
      using eq by (auto simp: normalize_sample_def)
  qed
qed

lemma round_half_even_int: "round_half_even (of_int k) = k"
  by (simp add: round_half_even_def)

lemma to_uint8_clamped_int: "0 \<le> k \<Longrightarrow> k \<le> 255 \<Longrightarrow> to_uint8_clamped (Fin (of_int k)) = nat k"
  by (auto simp: round_half_even_int)

lemma range_of_nonzero: "range_of mn mx \<noteq> Fin 0"
  by (cases "js_sub mx mn") (auto simp: range_of_def js_or_def)

lemma scenario_sample: "normalize_sample (Fin 10) (range_of (Fin 10) (Fin 30)) (Fin 20) = Fin 128"
  by (simp add: normalize_sample_def range_of_def js_or_def)

lemma dataToCanvas_result:
  assumes "dataToCanvas s buf w h = Inr (s', cv)"
  shows "s' = store_range s buf" "canvas_width cv = w" "canvas_height cv = h"
    "pixels cv = fill_rows buf (used_min s buf) (range_of (used_min s buf) (used_max s buf))
                   (buf_height buf) (replicate (w * h * 4) 0)"
    "0 < w" "0 < h"
  using assms by (auto simp: dataToCanvas_def Let_def split: if_splits)

lemma sample_byte_le: "sample_byte buf mn rng y x c \<le> 255"
  by (simp add: sample_byte_def to_uint8_clamped_le)

lemma fill_rows_bytes:
  assumes "\<forall>b\<in>set d. b \<le> 255"
  shows "\<forall>b\<in>set (fill_rows buf mn rng m d). b \<le> 255"
proof
  fix b assume "b \<in> set (fill_rows buf mn rng m d)"
  then obtain i where i: "i < length d" and b: "b = fill_rows buf mn rng m d ! i"
    by (auto simp: in_set_conv_nth fill_rows_length)
  have "d ! i \<le> 255" using assms i by simp
  then show "b \<le> 255"
    unfolding b fill_rows_nth [OF i] by (simp add: sample_byte_le)
qed

lemma fill_rows_sample:
  assumes "y < m" "x < buf_width buf" "c < 4" "(y * buf_width buf + x) * 4 + c < length d"
  shows "fill_rows buf mn rng m d ! ((y * buf_width buf + x) * 4 + c) = sample_byte buf mn rng y x c"
proof -
  define W where "W = buf_width buf"
  define k where "k = y * W + x"
  have d4: "(k * 4 + c) div 4 = k" and m4: "(k * 4 + c) mod 4 = c"
    using assms(3) by simp_all
  have "k < y * W + W" using assms(2) by (simp add: k_def W_def)
  also have "\<dots> = Suc y * W" by simp
  also have "\<dots> \<le> m * W" using assms(1) by (intro mult_le_mono1) simp
  finally have lt: "k < m * W" .
  have "k div W = y" "k mod W = x"
    using assms(2) by (simp_all add: k_def W_def)
  then show ?thesis
    using fill_rows_nth [OF assms(4), of buf mn rng m] lt
    unfolding W_def [symmetric] k_def [symmetric] d4 m4 by simp
qed

lemma scenario_canvas:
  "dataToCanvas (small_pyramid r) (rows_buffer [[Fin 10, Fin 20, Fin 30]]) 3 1 =
     Inr ((small_pyramid r)\<lparr> minValue := Num (Fin 10), maxValue := Num (Fin 30) \<rparr>,
          \<lparr> canvas_width = 3, canvas_height = 1,
            pixels = [0, 0, 0, 255, 128, 128, 128, 255, 255, 255, 255, 255] \<rparr>)"
  by (simp add: normalizer_defs small_pyramid_fields numeral_eq_Suc)

lemma scenario_range:
  "used_min (small_pyramid r) (rows_buffer [[Fin 10, Fin 20, Fin 30]]) = Fin 10"
  "used_max (small_pyramid r) (rows_buffer [[Fin 10, Fin 20, Fin 30]]) = Fin 30"
  by (simp_all add: normalizer_defs small_pyramid_fields numeral_eq_Suc)

text \<open>
  C5. In the canvas that \<open>dataToCanvas\<close> returns, the sample at row \<open>y\<close> and column \<open>x\<close> of
  the buffer is stored at index \<open>(y * actualWidth + x) * 4\<close>: its value is the rounded,
  clamped and scaled quotient of the specification, computed with the \<open>min\<close> and \<open>max\<close> the
  function uses for this buffer; it fills the R, G and B bytes, and the alpha byte is 255.
  The value is an integer from 0 to 255 (or NaN, stored as 0), every byte of the canvas is
  at most 255, and with the range (10, 30) the value 20 gives 128.
\<close>

theorem normalizer_per_sample:
  assumes "dataToCanvas s buf w h = Inr (s', cv)"
    and "y < buf_height buf" and "x < buf_width buf"
    and "(y * buf_width buf + x) * 4 + 3 < length (pixels cv)"
  shows "normalize_sample (used_min s buf) (range_of (used_min s buf) (used_max s buf))
           (buf_get buf y x)
         = spec_intensity (used_min s buf) (used_max s buf) (buf_get buf y x)
     \<and> pixels cv ! ((y * buf_width buf + x) * 4)
         = to_uint8_clamped (spec_intensity (used_min s buf) (used_max s buf) (buf_get buf y x))
     \<and> pixels cv ! ((y * buf_width buf + x) * 4 + 1)
         = to_uint8_clamped (spec_intensity (used_min s buf) (used_max s buf) (buf_get buf y x))
     \<and> pixels cv ! ((y * buf_width buf + x) * 4 + 2)
         = to_uint8_clamped (spec_intensity (used_min s buf) (used_max s buf) (buf_get buf y x))
     \<and> pixels cv ! ((y * buf_width buf + x) * 4 + 3) = 255
     \<and> (spec_intensity (used_min s buf) (used_max s buf) (buf_get buf y x) = NaN
          \<or> (\<exists>k. 0 \<le> k \<and> k \<le> 255
                \<and> spec_intensity (used_min s buf) (used_max s buf) (buf_get buf y x)
                    = Fin (of_int k)
                \<and> to_uint8_clamped
                     (spec_intensity (used_min s buf) (used_max s buf) (buf_get buf y x))
                    = nat k))
     \<and> (\<forall>b\<in>set (pixels cv). b \<le> 255)
     \<and> normalize_sample (Fin 10) (range_of (Fin 10) (Fin 30)) (Fin 20) = Fin 128"
proof -
  let ?mn = "used_min s buf" and ?mx = "used_max s buf"
  let ?d = "replicate (w * h * 4) (0::nat)"
  let ?v = "spec_intensity ?mn ?mx (buf_get buf y x)"
  have px: "pixels cv = fill_rows buf ?mn (range_of ?mn ?mx) (buf_height buf) ?d"
    using assms(1) by (rule dataToCanvas_result)
  have len: "(y * buf_width buf + x) * 4 + 3 < length ?d"
    using assms(4) unfolding px fill_rows_length .
  have byte: "pixels cv ! ((y * buf_width buf + x) * 4 + c)
      = sample_byte buf ?mn (range_of ?mn ?mx) y x c" if "c < 4" for c
    unfolding px using assms(2,3) that len by (intro fill_rows_sample) simp_all
  have spec: "normalize_sample ?mn (range_of ?mn ?mx) (buf_get buf y x) = ?v"
    by (rule normalize_sample_spec)
  have c0: "pixels cv ! ((y * buf_width buf + x) * 4) = to_uint8_clamped ?v"
    using byte [of 0] by (simp add: sample_byte_def spec)
  have c1: "pixels cv ! ((y * buf_width buf + x) * 4 + 1) = to_uint8_clamped ?v"
    using byte [of 1] by (simp add: sample_byte_def spec)
  have c2: "pixels cv ! ((y * buf_width buf + x) * 4 + 2) = to_uint8_clamped ?v"
    using byte [of 2] by (simp add: sample_byte_def spec)
  have c3: "pixels cv ! ((y * buf_width buf + x) * 4 + 3) = 255"
    using byte [of 3] by (simp add: sample_byte_def)
  have int: "?v = NaN \<or> (\<exists>k. 0 \<le> k \<and> k \<le> 255 \<and> ?v = Fin (of_int k)
                \<and> to_uint8_clamped ?v = nat k)"
    using normalize_sample_integer [of ?mn "range_of ?mn ?mx" "buf_get buf y x"]
    unfolding spec by (metis to_uint8_clamped_int)
  have bytes: "\<forall>b\<in>set (pixels cv). b \<le> 255"
    unfolding px by (rule fill_rows_bytes) simp
  show ?thesis
    using spec c0 c1 c2 c3 int bytes scenario_sample by blast
qed

theorem normalizer_per_sample_witness:
  "dataToCanvas (small_pyramid Pending) (rows_buffer [[Fin 10, Fin 20, Fin 30]]) 3 1 =
     Inr ((small_pyramid Pending)\<lparr> minValue := Num (Fin 10), maxValue := Num (Fin 30) \<rparr>,
          \<lparr> canvas_width = 3, canvas_height = 1,
            pixels = [0, 0, 0, 255, 128, 128, 128, 255, 255, 255, 255, 255] \<rparr>)
   \<and> 0 < buf_height (rows_buffer [[Fin 10, Fin 20, Fin 30]])
   \<and> 1 < buf_width (rows_buffer [[Fin 10, Fin 20, Fin 30]])
   \<and> (0 * buf_width (rows_buffer [[Fin 10, Fin 20, Fin 30]]) + 1) * 4 + 3
        < length [0, 0, 0, 255, 128, 128, 128, 255, 255, 255, 255, 255 :: nat]
   \<and> used_min (small_pyramid Pending) (rows_buffer [[Fin 10, Fin 20, Fin 30]]) = Fin 10
   \<and> used_max (small_pyramid Pending) (rows_buffer [[Fin 10, Fin 20, Fin 30]]) = Fin 30
   \<and> spec_intensity (Fin 10) (Fin 30) (Fin 20) = Fin 128
   \<and> to_uint8_clamped (spec_intensity (Fin 10) (Fin 30) (Fin 20)) = 128"
proof -
  have canvas: "dataToCanvas (small_pyramid Pending) (rows_buffer [[Fin 10, Fin 20, Fin 30]]) 3 1 =
     Inr ((small_pyramid Pending)\<lparr> minValue := Num (Fin 10), maxValue := Num (Fin 30) \<rparr>,
          \<lparr> canvas_width = 3, canvas_height = 1,
            pixels = [0, 0, 0, 255, 128, 128, 128, 255, 255, 255, 255, 255] \<rparr>)"
    by (rule scenario_canvas)
  have buffer: "0 < buf_height (rows_buffer [[Fin 10, Fin 20, Fin 30]])"
    "1 < buf_width (rows_buffer [[Fin 10, Fin 20, Fin 30]])"
    "buf_get (rows_buffer [[Fin 10, Fin 20, Fin 30]]) 0 (Suc 0) = Fin 20"
    by (simp_all add: rows_buffer_def)
  have inside: "(0 * buf_width (rows_buffer [[Fin 10, Fin 20, Fin 30]]) + 1) * 4 + 3
        < length [0, 0, 0, 255, 128, 128, 128, 255, 255, 255, 255, 255 :: nat]"
    by (simp add: rows_buffer_def)
  have "spec_intensity (Fin 10) (Fin 30) (Fin 20) = Fin 128
      \<and> to_uint8_clamped (spec_intensity (Fin 10) (Fin 30) (Fin 20)) = 128"
    using normalizer_per_sample [OF canvas buffer(1,2)] inside
    by (auto simp: scenario_range buffer(3))
  then show ?thesis
    using canvas buffer(1,2) inside scenario_range [of Pending] by blast
qed

subsection \<open>The normalization state\<close>

lemma constructor_ignores_fixed:
  "constructor url (opts\<lparr>opt_fixedMin := a, opt_fixedMax := b\<rparr>) = constructor url opts"
  by (simp add: constructor_def)

lemma first_scan:
  assumes "autoNormalize s" "minValue s = Null" "maxValue s = Null"
  shows "store_range s buf =
     s\<lparr> minValue := Num (fst (scan_range buf)), maxValue := Num (snd (scan_range buf)) \<rparr>"
  using assms by (simp add: store_range_def needs_scan_def)

lemma no_scan_when_off:
  assumes "\<not> autoNormalize s" "minValue s = Null" "maxValue s = Null"
  shows "store_range s buf = s" "used_min s buf = Fin 0" "used_max s buf = Fin 255"
  using assms by (simp_all add: store_range_def needs_scan_def used_min_def used_max_def
      local_min_def local_max_def js_or_def)

lemma stored_pair_used:
  assumes "minValue s = Num a" "maxValue s = Num b" "a \<noteq> NaN"
  shows "store_range s buf = s" "used_min s buf = a"
    "used_max s buf = (if b = Fin 0 \<or> b = NaN then Fin 255 else b)"
proof -
  show st: "store_range s buf = s"
    using assms by (simp add: store_range_def needs_scan_def)
  show "used_min s buf = a"
    using assms by (cases a) (auto simp: used_min_def st local_min_def needs_scan_def js_or_def)
  show "used_max s buf = (if b = Fin 0 \<or> b = NaN then Fin 255 else b)"
    using assms by (cases b) (auto simp: used_max_def st local_max_def needs_scan_def js_or_def)
qed

lemma scan_only_once: "\<not> needs_scan (store_range s buf)"
  by (simp add: store_range_def needs_scan_def)

lemma replicate_numeral: "replicate (numeral k) x = x # replicate (pred_numeral k) x"
  by (simp add: numeral_eq_Suc)

lemma list_update_numeral: "(x # xs)[numeral k := y] = x # xs[pred_numeral k := y]"
  by (simp add: numeral_eq_Suc)

lemma floor_rat_numeral_div: "\<lfloor>numeral a / numeral b :: rat\<rfloor> = numeral a div numeral b"
  using floor_divide_of_int_eq [of "numeral a" "numeral b", where ?'a = rat] by simp

text \<open>
  C3, as amended. The constructor does not read \<open>fixedMin\<close> and \<open>fixedMax\<close>: whatever their
  values it builds the same tile source, whose normalization state is unset. With
  auto-normalization on (the default) the first buffer is scanned and its range stored;
  with \<open>autoNormalize: false\<close> nothing is scanned or stored and every buffer is normalized
  with the range from 0 to 255.
\<close>

theorem fixed_options_not_read:
  "constructor url (opts\<lparr>opt_fixedMin := a, opt_fixedMax := b\<rparr>) = constructor url opts
   \<and> minValue (constructor url opts) = Null
   \<and> maxValue (constructor url opts) = Null
   \<and> (opt_autoNormalize opts \<noteq> Bool False \<longrightarrow>
        store_range (constructor url opts) buf =
          (constructor url opts)\<lparr> minValue := Num (fst (scan_range buf)),
                                  maxValue := Num (snd (scan_range buf)) \<rparr>)
   \<and> (opt_autoNormalize opts = Bool False \<longrightarrow>
        store_range (constructor url opts) buf = constructor url opts
        \<and> used_min (constructor url opts) buf = Fin 0
        \<and> used_max (constructor url opts) buf = Fin 255)"
proof -
  have null: "minValue (constructor url opts) = Null" "maxValue (constructor url opts) = Null"
    by (simp_all add: constructor_def)
  have auto: "autoNormalize (constructor url opts) = (opt_autoNormalize opts \<noteq> Bool False)"
    by (simp add: constructor_def)
  show ?thesis
    using null constructor_ignores_fixed [where url = url and opts = opts and a = a and b = b]
      first_scan [OF _ null, of buf] no_scan_when_off [OF _ null, of buf]
    unfolding auto by simp
qed

theorem fixed_options_not_read_witness:
  "opt_autoNormalize default_options \<noteq> Bool False
   \<and> opt_autoNormalize (default_options\<lparr>opt_autoNormalize := Bool False\<rparr>) = Bool False
   \<and> constructor ''u'' (default_options\<lparr>opt_fixedMin := Num (Fin 50), opt_fixedMax := Num (Fin 200)\<rparr>)
       = constructor ''u'' default_options
   \<and> minValue (store_range (constructor ''u'' default_options)
                 (rows_buffer [[Fin 10, Fin 20, Fin 30]])) = Num (Fin 10)
   \<and> maxValue (store_range (constructor ''u'' default_options)
                 (rows_buffer [[Fin 10, Fin 20, Fin 30]])) = Num (Fin 30)
   \<and> used_max (constructor ''u'' (default_options\<lparr>opt_autoNormalize := Bool False\<rparr>))
        (rows_buffer [[Fin 10, Fin 20, Fin 30]]) = Fin 255"
  using fixed_options_not_read
      [where url = "''u''" and opts = default_options
         and a = "Num (Fin 50)" and b = "Num (Fin 200)"
         and buf = "rows_buffer [[Fin 10, Fin 20, Fin 30]]"]
    fixed_options_not_read
      [where url = "''u''" and opts = "default_options\<lparr>opt_autoNormalize := Bool False\<rparr>"
         and a = "Num (Fin 50)" and b = "Num (Fin 200)"
         and buf = "rows_buffer [[Fin 10, Fin 20, Fin 30]]"]
  by (simp add: default_options_def scan_range_def scan_step_def js_gt_def rows_buffer_def
        numeral_eq_Suc)

text \<open>
  C3 as stated fails: with \<open>fixedMin = 50\<close> and \<open>fixedMax = 200\<close> in the options, the state
  starts unset and the buffer 10, 20, 30 is normalized with its own range (10, 30), which is
  stored; 20 becomes 128, where the pair (50, 200) gives 0.
\<close>

theorem fixed_range_is_ignored:
  "minValue (constructor ''u''
       (default_options\<lparr>opt_fixedMin := Num (Fin 50), opt_fixedMax := Num (Fin 200)\<rparr>)) = Null
   \<and> dataToCanvas
        (constructor ''u''
           (default_options\<lparr>opt_fixedMin := Num (Fin 50), opt_fixedMax := Num (Fin 200)\<rparr>))
        (rows_buffer [[Fin 10, Fin 20, Fin 30]]) 3 1
      = Inr ((constructor ''u''
                (default_options\<lparr>opt_fixedMin := Num (Fin 50), opt_fixedMax := Num (Fin 200)\<rparr>))
               \<lparr> minValue := Num (Fin 10), maxValue := Num (Fin 30) \<rparr>,
             \<lparr> canvas_width = 3, canvas_height = 1,
               pixels = [0, 0, 0, 255, 128, 128, 128, 255, 255, 255, 255, 255] \<rparr>)
   \<and> to_uint8_clamped (spec_intensity (Fin 50) (Fin 200) (Fin 20)) = 0"
  by (simp add: normalizer_defs constructor_def default_options_def numeral_eq_Suc
        spec_intensity_def clamp01_def)

text \<open>
  C6 at an all-zero first buffer. The scan stores the pair (0, 0), once; for the next buffer
  the stored maximum 0 is falsy in \<open>this.maxValue || max || 255\<close>, so the range used is
  (0, 255): the samples 100 and 200 become 100 and 200, where the stored pair gives 255 for
  both.
\<close>

theorem zero_maximum_replaced_by_255:
  "dataToCanvas (small_pyramid Pending) (rows_buffer [[Fin 0, Fin 0]]) 2 1
     = Inr ((small_pyramid Pending)\<lparr> minValue := Num (Fin 0), maxValue := Num (Fin 0) \<rparr>,
            \<lparr> canvas_width = 2, canvas_height = 1, pixels = [0, 0, 0, 255, 0, 0, 0, 255] \<rparr>)
   \<and> dataToCanvas
        ((small_pyramid Pending)\<lparr> minValue := Num (Fin 0), maxValue := Num (Fin 0) \<rparr>)
        (rows_buffer [[Fin 100, Fin 200]]) 2 1
     = Inr ((small_pyramid Pending)\<lparr> minValue := Num (Fin 0), maxValue := Num (Fin 0) \<rparr>,
            \<lparr> canvas_width = 2, canvas_height = 1,
              pixels = [100, 100, 100, 255, 200, 200, 200, 255] \<rparr>)
   \<and> used_max ((small_pyramid Pending)\<lparr> minValue := Num (Fin 0), maxValue := Num (Fin 0) \<rparr>)
        (rows_buffer [[Fin 100, Fin 200]]) = Fin 255
   \<and> to_uint8_clamped (spec_intensity (Fin 0) (Fin 0) (Fin 100)) = 255
   \<and> to_uint8_clamped (spec_intensity (Fin 0) (Fin 0) (Fin 200)) = 255"
  by (simp add: normalizer_defs small_pyramid_fields replicate_numeral list_update_numeral
        floor_rat_numeral_div spec_intensity_def clamp01_def)

subsection \<open>Tiles on the bottom and right edges\<close>

lemma edge_selection_clamped:
  assumes "shape a = [H, W]" "chunks a = [th, tw]"
  shows "tile_selection a t =
     Sel2 (Some (tile_y t * int th), Some (min (tile_y t * int th + int th) (int H)))
          (Some (tile_x t * int tw), Some (min (tile_x t * int tw + int tw) (int W)))"
  using assms
  by (simp add: tile_selection_def hasChannels_def tile_range_def tileWidth_def tileHeight_def
        js_index_def)

text \<open>
  C2 at a tile on the right edge. In a level of 3 by 3 samples with chunks of 2 by 2, the
  tile at column 1 is requested as rows 0 to 2 and columns 2 to 3, the clamped region, and
  the buffer read is 2 rows of 1 sample; but the canvas delivered has the nominal size 2 by
  2, and since samples are stored with the stride of the actual width, the second sample
  lies in row 0 and row 1 stays transparent.
\<close>

theorem edge_tile_raster_has_nominal_size:
  "snd (downloadTileStart decodes_nonempty
          (small_pyramid (Resolved (rows_buffer [[Fin 10], [Fin 30]]))) (request 1 1 0))
     = [Fetch 0 (Sel2 (Some 0, Some 2) (Some 2, Some 3)),
        Normalize 2 1,
        Finish_ok \<lparr> canvas_width = 2, canvas_height = 2,
          pixels = [0, 0, 0, 255, 255, 255, 255, 255, 0, 0, 0, 0, 0, 0, 0, 0] \<rparr>]
   \<and> buf_width (rows_buffer [[Fin 10], [Fin 30]]) = 1"
  by (simp add: edge_tile_request) (simp add: rows_buffer_def)

end
